theory Spec2Isabelle
  imports Main "HOL-Library.Word"
begin

section \<open>gRPC server metrics (otelgrpc, grpcmetric.go)\<close>

subsection \<open>Values of the host libraries\<close>

text \<open>
  \<^verbatim>\<open>codes.Code\<close> is a \<^verbatim>\<open>uint32\<close>; \<^verbatim>\<open>codes.OK\<close> is 0 and \<^verbatim>\<open>codes.Unknown\<close> is 2.
\<close>

type_synonym Code = "32 word"

definition OK :: Code where
  "OK = 0"

definition Unknown :: Code where
  "Unknown = 2"

text \<open>
  A \<^verbatim>\<open>*status.Status\<close>: a code and a message.
\<close>

datatype Status = Status (status_code: Code) (status_message: string)

text \<open>
  A Go \<^verbatim>\<open>error\<close> value, by what this file observes of it: the text of \<^verbatim>\<open>Error()\<close>, the
  status returned by its \<^verbatim>\<open>GRPCStatus()\<close> method when it has one, and the error
  returned by \<^verbatim>\<open>Unwrap()\<close> when it wraps one. A nil error is \<open>None\<close> of
  \<open>error option\<close>.
\<close>

datatype error = Error (msg: string) (GRPCStatus: "Status option") (Unwrap: "error option")

text \<open>
  \<^verbatim>\<open>status.FromError(err)\<close> for a non-nil error: the status of the error's own
  \<^verbatim>\<open>GRPCStatus()\<close> method and \<^verbatim>\<open>true\<close>; otherwise a status with \<^verbatim>\<open>codes.Unknown\<close>
  and the error's text, and \<^verbatim>\<open>false\<close>.
\<close>

definition status_FromError :: "error \<Rightarrow> Status \<times> bool" where
  "status_FromError err =
     (case GRPCStatus err of
        Some se \<Rightarrow> (se, True)
      | None \<Rightarrow> (Status Unknown (msg err), False))"

text \<open>
  An \<^verbatim>\<open>interface{}\<close> value as the interceptor sees it: nil, a value whose dynamic
  type implements \<^verbatim>\<open>proto.Message\<close> (given by its wire encoding), or a value of any
  other type. The type assertion \<^verbatim>\<open>v.(proto.Message)\<close> succeeds on the second
  kind only, and \<^verbatim>\<open>proto.Size\<close> is the length of the wire encoding.
\<close>

type_synonym byte = "8 word"

datatype iface = NilValue | ProtoMessage "byte list" | Other string

fun proto_Message :: "iface \<Rightarrow> byte list option" where
  "proto_Message (ProtoMessage p) = Some p"
| "proto_Message NilValue = None"
| "proto_Message (Other v) = None"

definition proto_Size :: "byte list \<Rightarrow> int" where
  "proto_Size p = int (length p)"

text \<open>
  Labels: \<^verbatim>\<open>label.KeyValue\<close> is a key with a typed value.
\<close>

datatype Value = StringValue string | Uint32Value "32 word"

datatype KeyValue = KeyValue (Key: string) (Val: Value)

subsection \<open>Instruments and the meter\<close>

text \<open>
  Instrument handles are opaque; the meter chooses what a handle refers to.
\<close>

datatype Int64UpDownCounter = Int64UpDownCounter nat

datatype Int64ValueRecorder = Int64ValueRecorder nat

datatype InstrumentOption = WithDescription string

text \<open>
  The meter is the caller's: its two constructors take a name and options and
  return Go's pair of a handle and an error, and may change the state \<open>'s\<close> of
  the metric source.
\<close>

record 's Meter =
  NewInt64UpDownCounter ::
    "string \<Rightarrow> InstrumentOption list \<Rightarrow> 's \<Rightarrow> (Int64UpDownCounter \<times> error option) \<times> 's"
  NewInt64ValueRecorder ::
    "string \<Rightarrow> InstrumentOption list \<Rightarrow> 's \<Rightarrow> (Int64ValueRecorder \<times> error option) \<times> 's"

type_synonym 's MeterProvider = "string \<Rightarrow> 's Meter"

subsection \<open>Metric names and the reporter\<close>

definition ServerMsgReceivedCounter :: string where
  "ServerMsgReceivedCounter = ''grpc.server.msg.received.total''"

definition ServerMsgReceivedBytes :: string where
  "ServerMsgReceivedBytes = ''grpc.server.msg.received.bytes''"

definition ServerMsgSentCounter :: string where
  "ServerMsgSentCounter = ''grpc.server.msg.sent.total''"

definition ServerMsgSentBytes :: string where
  "ServerMsgSentBytes = ''grpc.server.msg.sent.bytes''"

definition ServerLatencyMilliseconds :: string where
  "ServerLatencyMilliseconds = ''grpc.server.latency.milliseconds''"

record MetricsReporter =
  serverMsgReceivedCounter :: Int64UpDownCounter
  serverMsgReceivedBytes :: Int64ValueRecorder
  serverMsgSentCounter :: Int64UpDownCounter
  serverMsgSentBytes :: Int64ValueRecorder
  serverLatencyMilliseconds :: Int64ValueRecorder

text \<open>
  \<^verbatim>\<open>fmt.Errorf("otelgrpc: failed to register metric '%s': %w", metric, err)\<close>: the
  text is formatted with the cause's text, and \<^verbatim>\<open>%w\<close> makes the result wrap the cause.
\<close>

definition withMessage :: "error \<Rightarrow> string \<Rightarrow> error" where
  "withMessage err metric =
     Error (''otelgrpc: failed to register metric '' @ [CHR 0x27] @ metric @ [CHR 0x27]
              @ '': '' @ msg err)
           None (Some err)"

text \<open>
  \<^verbatim>\<open>NewMetricsReporter\<close>. The constant \<^verbatim>\<open>instrumentationName\<close> is declared outside
  grpcmetric.go and is a parameter here. The result is Go's pair of a reporter
  pointer (\<open>None\<close> for nil) and an error, with the state of the metric source.
\<close>

definition NewMetricsReporter ::
  "string \<Rightarrow> 's MeterProvider \<Rightarrow> 's \<Rightarrow> (MetricsReporter option \<times> error option) \<times> 's" where
  "NewMetricsReporter instrumentationName meterProvider s0 =
    (let meter = meterProvider instrumentationName in
     case NewInt64UpDownCounter meter ServerMsgReceivedCounter
            [WithDescription ''Total number of messages received on the server''] s0 of
       ((_, Some err), s1) \<Rightarrow> ((None, Some (withMessage err ServerMsgReceivedCounter)), s1)
     | ((receivedCounter, None), s1) \<Rightarrow>
     (case NewInt64ValueRecorder meter ServerMsgReceivedBytes
            [WithDescription ''Number of bytes received by the server''] s1 of
       ((_, Some err), s2) \<Rightarrow> ((None, Some (withMessage err ServerMsgReceivedBytes)), s2)
     | ((receivedBytes, None), s2) \<Rightarrow>
     (case NewInt64UpDownCounter meter ServerMsgSentCounter
            [WithDescription ''Total number of messages sent by the server''] s2 of
       ((_, Some err), s3) \<Rightarrow> ((None, Some (withMessage err ServerMsgSentCounter)), s3)
     | ((sentCounter, None), s3) \<Rightarrow>
     (case NewInt64ValueRecorder meter ServerMsgSentBytes
            [WithDescription ''Number of bytes sent by the server''] s3 of
       ((_, Some err), s4) \<Rightarrow> ((None, Some (withMessage err ServerMsgSentBytes)), s4)
     | ((sentBytes, None), s4) \<Rightarrow>
     (case NewInt64ValueRecorder meter ServerLatencyMilliseconds
            [WithDescription ''Latency recorded by the server to handle a gRPC request''] s4 of
       ((_, Some err), s5) \<Rightarrow>
          ((None, Some (withMessage err ServerLatencyMilliseconds)), s5)
     | ((latencyMilliseconds, None), s5) \<Rightarrow>
          ((Some \<lparr> serverMsgReceivedCounter = receivedCounter,
                   serverMsgReceivedBytes = receivedBytes,
                   serverMsgSentCounter = sentCounter,
                   serverMsgSentBytes = sentBytes,
                   serverLatencyMilliseconds = latencyMilliseconds \<rparr>, None), s5))))))"

subsection \<open>Registration as the design states it\<close>

text \<open>
  The design's words for registration: five fixed instrument specifications
  (kind, name, description) are created against the source in a fixed order; the
  first failure aborts with the name of the instrument that failed and the cause.
  \<open>create_in_order\<close> does this for any list of specifications; it is compared with
  \<open>NewMetricsReporter\<close> below.
\<close>

datatype InstrumentKind = UpDownCounterInstrumentKind | ValueRecorderInstrumentKind

datatype instrument = Counter Int64UpDownCounter | Recorder Int64ValueRecorder

type_synonym instrument_spec = "InstrumentKind \<times> string \<times> string"

definition instrument_specs :: "instrument_spec list" where
  "instrument_specs =
     [(UpDownCounterInstrumentKind, ServerMsgReceivedCounter,
         ''Total number of messages received on the server''),
      (ValueRecorderInstrumentKind, ServerMsgReceivedBytes,
         ''Number of bytes received by the server''),
      (UpDownCounterInstrumentKind, ServerMsgSentCounter,
         ''Total number of messages sent by the server''),
      (ValueRecorderInstrumentKind, ServerMsgSentBytes,
         ''Number of bytes sent by the server''),
      (ValueRecorderInstrumentKind, ServerLatencyMilliseconds,
         ''Latency recorded by the server to handle a gRPC request'')]"

fun create :: "'s Meter \<Rightarrow> instrument_spec \<Rightarrow> 's \<Rightarrow> (instrument \<times> error option) \<times> 's" where
  "create meter (UpDownCounterInstrumentKind, name, description) s =
     (case NewInt64UpDownCounter meter name [WithDescription description] s of
        ((c, e), s') \<Rightarrow> ((Counter c, e), s'))"
| "create meter (ValueRecorderInstrumentKind, name, description) s =
     (case NewInt64ValueRecorder meter name [WithDescription description] s of
        ((r, e), s') \<Rightarrow> ((Recorder r, e), s'))"

text \<open>
  The result is \<open>Inl (name, cause)\<close> for the first instrument that failed, with the
  state of the source right after that attempt, or \<open>Inr\<close> of all handles.
\<close>

fun create_in_order ::
  "'s Meter \<Rightarrow> instrument_spec list \<Rightarrow> 's \<Rightarrow> ((string \<times> error) + instrument list) \<times> 's" where
  "create_in_order meter [] s = (Inr [], s)"
| "create_in_order meter (sp # sps) s =
     (case create meter sp s of
        ((_, Some cause), s') \<Rightarrow> (Inl (fst (snd sp), cause), s')
      | ((h, None), s') \<Rightarrow>
          (case create_in_order meter sps s' of
             (Inl failure, s'') \<Rightarrow> (Inl failure, s'')
           | (Inr hs, s'') \<Rightarrow> (Inr (h # hs), s'')))"

text \<open>
  The handles a reporter bundles, in the order of its fields.
\<close>

definition handles :: "MetricsReporter \<Rightarrow> instrument list" where
  "handles mr =
     [Counter (serverMsgReceivedCounter mr), Recorder (serverMsgReceivedBytes mr),
      Counter (serverMsgSentCounter mr), Recorder (serverMsgSentBytes mr),
      Recorder (serverLatencyMilliseconds mr)]"

text \<open>
  A meter that also keeps a journal of the creation requests it receives (kind,
  name, options), in the order they arrive, and otherwise behaves as the meter
  it wraps.
\<close>

type_synonym request = "InstrumentKind \<times> string \<times> InstrumentOption list"

definition journalled :: "'s Meter \<Rightarrow> (request list \<times> 's) Meter" where
  "journalled meter =
     \<lparr> NewInt64UpDownCounter = (\<lambda>name opts (journal, s).
         (case NewInt64UpDownCounter meter name opts s of
            (r, s') \<Rightarrow> (r, (journal @ [(UpDownCounterInstrumentKind, name, opts)], s')))),
       NewInt64ValueRecorder = (\<lambda>name opts (journal, s).
         (case NewInt64ValueRecorder meter name opts s of
            (r, s') \<Rightarrow> (r, (journal @ [(ValueRecorderInstrumentKind, name, opts)], s')))) \<rparr>"

fun described :: "request \<Rightarrow> bool" where
  "described (_, _, [WithDescription d]) = (d \<noteq> [])"
| "described _ = False"

text \<open>
  A meter for concrete runs: it numbers the instruments it hands out and fails,
  with a plain error, on the names in its first argument. Its state is the number
  of instruments created so far.
\<close>

definition counting_meter :: "string list \<Rightarrow> nat Meter" where
  "counting_meter failing =
     \<lparr> NewInt64UpDownCounter = (\<lambda>name opts n.
         if name \<in> set failing
         then ((Int64UpDownCounter 0, Some (Error ''boom'' None None)), n)
         else ((Int64UpDownCounter n, None), Suc n)),
       NewInt64ValueRecorder = (\<lambda>name opts n.
         if name \<in> set failing
         then ((Int64ValueRecorder 0, Some (Error ''boom'' None None)), n)
         else ((Int64ValueRecorder n, None), Suc n)) \<rparr>"

subsection \<open>The clock\<close>

text \<open>
  Readings of the process clock are nanosecond counts, and a \<^verbatim>\<open>time.Duration\<close> is an
  \<^verbatim>\<open>int64\<close> count of nanoseconds. \<^verbatim>\<open>time.Since(t)\<close> is the clock's reading now
  minus \<open>t\<close>, saturated at the bounds of \<^verbatim>\<open>int64\<close>; the reading now is the first
  argument here. \<^verbatim>\<open>Duration.Milliseconds\<close> is Go's integer division by \<open>10\<^sup>6\<close>, which
  truncates towards zero.
\<close>

type_synonym Time = int

type_synonym Duration = int

definition maxDuration :: Duration where
  "maxDuration = 2 ^ 63 - 1"

definition minDuration :: Duration where
  "minDuration = - (2 ^ 63)"

definition time_Since :: "Time \<Rightarrow> Time \<Rightarrow> Duration" where
  "time_Since now t =
     (let d = now - t in
      if d > maxDuration then maxDuration
      else if d < minDuration then minDuration
      else d)"

definition quo :: "int \<Rightarrow> int \<Rightarrow> int" where
  "quo a b = sgn a * sgn b * (\<bar>a\<bar> div \<bar>b\<bar>)"

definition Milliseconds :: "Duration \<Rightarrow> int" where
  "Milliseconds d = quo d 1000000"

subsection \<open>The metric sink and the interceptor\<close>

text \<open>
  What the instruments receive is kept as a journal of measurements: the
  instrument, the context, the number and the labels of each \<^verbatim>\<open>Add\<close> and
  \<^verbatim>\<open>Record\<close>, in the order of the calls. The world of a call is this journal
  together with the state \<open>'a\<close> on which the wrapped handler works.
\<close>

datatype 'ctx measurement =
  Measurement (target: instrument) (ctxt: 'ctx) (number: int) (labels: "KeyValue list")

record ('ctx, 'a) world =
  measurements :: "'ctx measurement list"
  app :: 'a

definition Int64UpDownCounter_Add ::
  "Int64UpDownCounter \<Rightarrow> 'ctx \<Rightarrow> int \<Rightarrow> KeyValue list \<Rightarrow> ('ctx, 'a) world \<Rightarrow> ('ctx, 'a) world" where
  "Int64UpDownCounter_Add c ctx v attrs w =
     w\<lparr>measurements := measurements w @ [Measurement (Counter c) ctx v attrs]\<rparr>"

definition Int64ValueRecorder_Record ::
  "Int64ValueRecorder \<Rightarrow> 'ctx \<Rightarrow> int \<Rightarrow> KeyValue list \<Rightarrow> ('ctx, 'a) world \<Rightarrow> ('ctx, 'a) world" where
  "Int64ValueRecorder_Record r ctx v attrs w =
     w\<lparr>measurements := measurements w @ [Measurement (Recorder r) ctx v attrs]\<rparr>"

record UnaryServerInfo =
  Server :: iface
  FullMethod :: string

text \<open>
  A \<^verbatim>\<open>grpc.UnaryHandler\<close> takes the context and the request and returns a response
  and an error; it works on the state \<open>'a\<close>. The model covers the calls whose handler
  returns.
\<close>

type_synonym ('ctx, 'a) UnaryHandler =
  "'ctx \<Rightarrow> iface \<Rightarrow> 'a \<Rightarrow> (iface \<times> error option) \<times> 'a"

text \<open>
  The function returned by \<^verbatim>\<open>UnaryServerInterceptor\<close>, applied to its four
  arguments. \<^verbatim>\<open>parseFullMethod\<close> and \<^verbatim>\<open>statusCodeAttr\<close> are declared outside
  grpcmetric.go and are parameters. The interceptor reads the clock twice, in
  \<^verbatim>\<open>time.Now()\<close> on entry and in \<^verbatim>\<open>time.Since(start)\<close> once the handler has
  returned; the two readings are the parameters \<open>now0\<close> and \<open>now1\<close>.
\<close>

definition UnaryServerInterceptor ::
  "MetricsReporter \<Rightarrow> (string \<Rightarrow> string \<times> KeyValue list) \<Rightarrow> (Code \<Rightarrow> KeyValue) \<Rightarrow>
   Time \<Rightarrow> Time \<Rightarrow>
   'ctx \<Rightarrow> iface \<Rightarrow> UnaryServerInfo \<Rightarrow> ('ctx, 'a) UnaryHandler \<Rightarrow>
   ('ctx, 'a) world \<Rightarrow> (iface \<times> error option) \<times> ('ctx, 'a) world" where
  "UnaryServerInterceptor mr parseFullMethod statusCodeAttr now0 now1 ctx req info handler w0 =
    (let start = now0;
         attributes = snd (parseFullMethod (FullMethod info));
         w1 = Int64UpDownCounter_Add (serverMsgReceivedCounter mr) ctx 1 attributes w0;
         w2 = (case proto_Message req of
                 Some p \<Rightarrow>
                   Int64ValueRecorder_Record (serverMsgReceivedBytes mr) ctx (proto_Size p)
                     attributes w1
               | None \<Rightarrow> w1);
         code = OK;
         ((resp, err), a) = handler ctx req (app w2);
         w3 = w2\<lparr>app := a\<rparr>;
         latency = time_Since now1 start;
         code = (case err of
                   Some e \<Rightarrow> status_code (fst (status_FromError e))
                 | None \<Rightarrow> code);
         attributes = attributes @ [statusCodeAttr code];
         w4 = Int64UpDownCounter_Add (serverMsgSentCounter mr) ctx 1 attributes w3;
         w5 = Int64ValueRecorder_Record (serverLatencyMilliseconds mr) ctx
                (Milliseconds latency) attributes w4;
         w6 = (case proto_Message resp of
                 Some p \<Rightarrow>
                   Int64ValueRecorder_Record (serverMsgSentBytes mr) ctx (proto_Size p)
                     attributes w5
               | None \<Rightarrow> w5)
     in ((resp, err), w6))"

text \<open>
  What one call adds to the journal, and the measurements an instrument received.
\<close>

definition emitted :: "('ctx, 'a) world \<Rightarrow> ('ctx, 'a) world \<Rightarrow> 'ctx measurement list" where
  "emitted w w' = drop (length (measurements w)) (measurements w')"

definition received_by :: "instrument \<Rightarrow> 'ctx measurement list \<Rightarrow> 'ctx measurement list" where
  "received_by i ms = filter (\<lambda>m. target m = i) ms"

text \<open>
  The outcome code as the design states it: success without an error, the code
  of the error's status when it carries one, the fallback otherwise.
\<close>

definition outcome :: "error option \<Rightarrow> Code" where
  "outcome err =
     (case err of
        None \<Rightarrow> OK
      | Some e \<Rightarrow> (case GRPCStatus e of Some st \<Rightarrow> status_code st | None \<Rightarrow> Unknown))"

text \<open>
  The measurements of the two halves of a call in closed form: those made before
  the handler runs, with the method labels, and those made after it has returned,
  with the labels they are given and the measured duration. The proofs below
  relate the interceptor to them.
\<close>

definition before_handler ::
  "MetricsReporter \<Rightarrow> 'ctx \<Rightarrow> iface \<Rightarrow> KeyValue list \<Rightarrow> 'ctx measurement list" where
  "before_handler mr ctx req attrs =
     Measurement (Counter (serverMsgReceivedCounter mr)) ctx 1 attrs #
     (case proto_Message req of
        Some p \<Rightarrow> [Measurement (Recorder (serverMsgReceivedBytes mr)) ctx (proto_Size p) attrs]
      | None \<Rightarrow> [])"

definition after_handler ::
  "MetricsReporter \<Rightarrow> 'ctx \<Rightarrow> iface \<Rightarrow> Duration \<Rightarrow> KeyValue list \<Rightarrow> 'ctx measurement list" where
  "after_handler mr ctx resp latency attrs =
     Measurement (Counter (serverMsgSentCounter mr)) ctx 1 attrs #
     Measurement (Recorder (serverLatencyMilliseconds mr)) ctx (Milliseconds latency) attrs #
     (case proto_Message resp of
        Some p \<Rightarrow> [Measurement (Recorder (serverMsgSentBytes mr)) ctx (proto_Size p) attrs]
      | None \<Rightarrow> [])"

text \<open>
  Modelled from the spec: \<^verbatim>\<open>parseFullMethod\<close> is declared outside grpcmetric.go. The
  design says that the full method name has the form \<^verbatim>\<open>/<service>/<method>\<close> and is
  parsed into the two label values service and method, that a missing leading
  slash or a missing separator gives empty or partial labels and never a failure,
  and (in its scenario, as the comment at the call does) that the labels are
  \<^verbatim>\<open>rpc.service\<close> and \<^verbatim>\<open>rpc.method\<close>. Here a leading slash is dropped when there is
  one, the rest is split at its first slash, and a name without a separator gives
  no label. The first component of the result, which the interceptor discards, is
  the name without its leading slash.
\<close>

definition parseFullMethod :: "string \<Rightarrow> string \<times> KeyValue list" where
  "parseFullMethod fullMethod =
     (let name = (case fullMethod of
                    c # cs \<Rightarrow> if c = CHR ''/'' then cs else fullMethod
                  | [] \<Rightarrow> fullMethod);
          service = takeWhile (\<lambda>c. c \<noteq> CHR ''/'') name;
          rest = dropWhile (\<lambda>c. c \<noteq> CHR ''/'') name
      in case rest of
           [] \<Rightarrow> (name, [])
         | _ # method \<Rightarrow>
             (name, [KeyValue ''rpc.service'' (StringValue service),
                     KeyValue ''rpc.method'' (StringValue method)]))"

text \<open>
  A label for the outcome code, for concrete runs: the code as a \<^verbatim>\<open>uint32\<close> value.
\<close>

definition code_label :: "Code \<Rightarrow> KeyValue" where
  "code_label c = KeyValue ''rpc.grpc.status_code'' (Uint32Value c)"

subsection \<open>Concrete inputs\<close>

text \<open>
  A reporter with five different instruments, a call of \<^verbatim>\<open>/pkg.Service/Get\<close>, an
  error with the status code 5 (NotFound), a handler that counts its calls and
  returns a two-byte message together with that error, and a handler without
  side effects that returns nothing.
\<close>

definition example_reporter :: MetricsReporter where
  "example_reporter =
     \<lparr> serverMsgReceivedCounter = Int64UpDownCounter 0,
       serverMsgReceivedBytes = Int64ValueRecorder 1,
       serverMsgSentCounter = Int64UpDownCounter 2,
       serverMsgSentBytes = Int64ValueRecorder 3,
       serverLatencyMilliseconds = Int64ValueRecorder 4 \<rparr>"

definition example_info :: UnaryServerInfo where
  "example_info = \<lparr> Server = NilValue, FullMethod = ''/pkg.Service/Get'' \<rparr>"

definition not_found :: error where
  "not_found = Error ''not found'' (Some (Status 5 ''not found'')) None"

definition counting_handler :: "(string, nat) UnaryHandler" where
  "counting_handler ctx req a = ((ProtoMessage [8, 1], Some not_found), Suc a)"

definition idle_handler :: "(string, nat) UnaryHandler" where
  "idle_handler ctx req a = ((NilValue, None), a)"

definition example_world :: "(string, nat) world" where
  "example_world = \<lparr> measurements = [], app = 0 \<rparr>"

text \<open>
  One call of the counting handler that takes 2.5 ms, and two calls of the idle
  handler, the second after the first, that take no time and 3 ms.
\<close>

definition example_run :: "(iface \<times> error option) \<times> (string, nat) world" where
  "example_run =
     UnaryServerInterceptor example_reporter parseFullMethod code_label 1000 2501000
       ''ctx'' (ProtoMessage [1, 2, 3]) example_info counting_handler example_world"

definition first_run :: "(iface \<times> error option) \<times> (string, nat) world" where
  "first_run =
     UnaryServerInterceptor example_reporter parseFullMethod code_label 0 0
       ''ctx'' (Other ''ping'') example_info idle_handler example_world"

definition second_run :: "(iface \<times> error option) \<times> (string, nat) world" where
  "second_run =
     UnaryServerInterceptor example_reporter parseFullMethod code_label 0 3000000
       ''ctx'' (Other ''ping'') example_info idle_handler (snd first_run)"

section \<open>Registration\<close>

text \<open>
  C5. \<^verbatim>\<open>NewMetricsReporter\<close> creates the five instruments in the fixed order of
  \<open>instrument_specs\<close>. When a creation fails, it returns at once, in the state the
  source has right after the failed attempt, a nil reporter and an error whose
  text names the instrument that failed and which wraps the cause. When none
  fails, it returns a nil error and a reporter holding the five handles the meter
  returned. A reporter is returned exactly when no error is.
\<close>

theorem NewMetricsReporter_fails_fast:
  "(case create_in_order (meterProvider instrumentationName) instrument_specs s of
      (Inl (name, cause), s') \<Rightarrow>
        NewMetricsReporter instrumentationName meterProvider s =
          ((None, Some (withMessage cause name)), s')
        \<and> Unwrap (withMessage cause name) = Some cause
        \<and> msg (withMessage cause name) =
            ''otelgrpc: failed to register metric '' @ [CHR 0x27] @ name @ [CHR 0x27] @ '': ''
              @ msg cause
    | (Inr hs, s') \<Rightarrow>
        snd (NewMetricsReporter instrumentationName meterProvider s) = s'
        \<and> snd (fst (NewMetricsReporter instrumentationName meterProvider s)) = None
        \<and> map_option handles (fst (fst (NewMetricsReporter instrumentationName meterProvider s)))
            = Some hs)
   \<and> (fst (fst (NewMetricsReporter instrumentationName meterProvider s)) = None) =
      (snd (fst (NewMetricsReporter instrumentationName meterProvider s)) \<noteq> None)"
proof -
  define d1 where "d1 = ''Total number of messages received on the server''"
  define d2 where "d2 = ''Number of bytes received by the server''"
  define d3 where "d3 = ''Total number of messages sent by the server''"
  define d4 where "d4 = ''Number of bytes sent by the server''"
  define d5 where "d5 = ''Latency recorded by the server to handle a gRPC request''"
  define prefix where "prefix = ''otelgrpc: failed to register metric ''"
  note folds = d1_def [symmetric] d2_def [symmetric] d3_def [symmetric] d4_def [symmetric]
    d5_def [symmetric] prefix_def [symmetric]
  show ?thesis
    unfolding NewMetricsReporter_def instrument_specs_def Let_def withMessage_def folds
    by (simp add: handles_def split: prod.splits option.splits)
qed

text \<open>
  A source that fails on its third instrument: the error names
  \<^verbatim>\<open>grpc.server.msg.sent.total\<close>, no reporter is returned, and the source has
  created two instruments.
\<close>

theorem NewMetricsReporter_fails_fast_witness:
  "NewMetricsReporter ''otelgrpc'' (\<lambda>name. counting_meter [''grpc.server.msg.sent.total'']) 0 =
     ((None, Some (withMessage (Error ''boom'' None None) ''grpc.server.msg.sent.total'')), 2)"
  using NewMetricsReporter_fails_fast
    [where meterProvider = "\<lambda>name. counting_meter [''grpc.server.msg.sent.total'']"
       and instrumentationName = "''otelgrpc''" and s = 0]
  by (simp add: instrument_specs_def counting_meter_def ServerMsgReceivedCounter_def
        ServerMsgReceivedBytes_def ServerMsgSentCounter_def)

text \<open>
  C9. Whatever the meter, the creation requests that \<^verbatim>\<open>NewMetricsReporter\<close> makes
  are, in this order, the up/down counter \<^verbatim>\<open>grpc.server.msg.received.total\<close>, the
  value recorder \<^verbatim>\<open>grpc.server.msg.received.bytes\<close>, the up/down counter
  \<^verbatim>\<open>grpc.server.msg.sent.total\<close>, the value recorder \<^verbatim>\<open>grpc.server.msg.sent.bytes\<close>
  and the value recorder \<^verbatim>\<open>grpc.server.latency.milliseconds\<close>, each with one
  description that is not empty: the journal grows by a prefix of these five
  requests, and by all five when no error is returned.
\<close>

theorem NewMetricsReporter_requests:
  assumes "NewMetricsReporter instrumentationName (\<lambda>name. journalled (meterProvider name))
             (journal, s) = ((reporter, err), (journal', s'))"
  shows "take (length journal) journal' = journal
    \<and> map (\<lambda>(kind, name, opts). (kind, name)) (drop (length journal) journal') =
        take (length journal' - length journal)
          [(UpDownCounterInstrumentKind, ''grpc.server.msg.received.total''),
           (ValueRecorderInstrumentKind, ''grpc.server.msg.received.bytes''),
           (UpDownCounterInstrumentKind, ''grpc.server.msg.sent.total''),
           (ValueRecorderInstrumentKind, ''grpc.server.msg.sent.bytes''),
           (ValueRecorderInstrumentKind, ''grpc.server.latency.milliseconds'')]
    \<and> list_all described (drop (length journal) journal')
    \<and> (err = None \<longrightarrow> length journal' = length journal + 5)"
proof -
  define d1 where "d1 = ''Total number of messages received on the server''"
  define d2 where "d2 = ''Number of bytes received by the server''"
  define d3 where "d3 = ''Total number of messages sent by the server''"
  define d4 where "d4 = ''Number of bytes sent by the server''"
  define d5 where "d5 = ''Latency recorded by the server to handle a gRPC request''"
  have ne: "d1 \<noteq> []" "d2 \<noteq> []" "d3 \<noteq> []" "d4 \<noteq> []" "d5 \<noteq> []"
    by (simp_all add: d1_def d2_def d3_def d4_def d5_def)
  note folds = d1_def [symmetric] d2_def [symmetric] d3_def [symmetric] d4_def [symmetric]
    d5_def [symmetric] ServerMsgReceivedCounter_def [symmetric]
    ServerMsgReceivedBytes_def [symmetric] ServerMsgSentCounter_def [symmetric]
    ServerMsgSentBytes_def [symmetric] ServerLatencyMilliseconds_def [symmetric]
  show ?thesis
    using assms ne
    unfolding NewMetricsReporter_def Let_def folds
    by (auto simp: journalled_def split: prod.splits option.splits)
qed

text \<open>
  A source that never fails, with an empty journal: all five requests are made.
\<close>

theorem NewMetricsReporter_requests_witness:
  "NewMetricsReporter ''otelgrpc'' (\<lambda>name. journalled (counting_meter [])) ([], 0) =
     ((Some example_reporter, None),
      ([(UpDownCounterInstrumentKind, ''grpc.server.msg.received.total'',
           [WithDescription ''Total number of messages received on the server'']),
        (ValueRecorderInstrumentKind, ''grpc.server.msg.received.bytes'',
           [WithDescription ''Number of bytes received by the server'']),
        (UpDownCounterInstrumentKind, ''grpc.server.msg.sent.total'',
           [WithDescription ''Total number of messages sent by the server'']),
        (ValueRecorderInstrumentKind, ''grpc.server.msg.sent.bytes'',
           [WithDescription ''Number of bytes sent by the server'']),
        (ValueRecorderInstrumentKind, ''grpc.server.latency.milliseconds'',
           [WithDescription ''Latency recorded by the server to handle a gRPC request''])],
       5))
   \<and> list_all described
        (fst (snd (NewMetricsReporter ''otelgrpc'' (\<lambda>name. journalled (counting_meter []))
           ([], 0))))"
proof -
  have run: "NewMetricsReporter ''otelgrpc'' (\<lambda>name. journalled (counting_meter [])) ([], 0) =
     ((Some example_reporter, None),
      ([(UpDownCounterInstrumentKind, ''grpc.server.msg.received.total'',
           [WithDescription ''Total number of messages received on the server'']),
        (ValueRecorderInstrumentKind, ''grpc.server.msg.received.bytes'',
           [WithDescription ''Number of bytes received by the server'']),
        (UpDownCounterInstrumentKind, ''grpc.server.msg.sent.total'',
           [WithDescription ''Total number of messages sent by the server'']),
        (ValueRecorderInstrumentKind, ''grpc.server.msg.sent.bytes'',
           [WithDescription ''Number of bytes sent by the server'']),
        (ValueRecorderInstrumentKind, ''grpc.server.latency.milliseconds'',
           [WithDescription ''Latency recorded by the server to handle a gRPC request''])],
       5))"
    by (simp add: NewMetricsReporter_def journalled_def counting_meter_def
          example_reporter_def ServerMsgReceivedCounter_def ServerMsgReceivedBytes_def
          ServerMsgSentCounter_def ServerMsgSentBytes_def ServerLatencyMilliseconds_def)
  from NewMetricsReporter_requests [OF run] show ?thesis
    unfolding run by simp
qed

section \<open>The interceptor\<close>

subsection \<open>What one call does\<close>

lemma interceptor_run:
  assumes "handler ctx req (app w) = ((resp, err), a)"
  shows "UnaryServerInterceptor mr pfm sca now0 now1 ctx req info handler w =
    ((resp, err),
     w\<lparr>measurements := measurements w @
          before_handler mr ctx req (snd (pfm (FullMethod info))) @
          after_handler mr ctx resp (time_Since now1 now0)
            (snd (pfm (FullMethod info)) @ [sca (outcome err)]),
       app := a\<rparr>)"
  using assms
  by (simp add: UnaryServerInterceptor_def Let_def Int64UpDownCounter_Add_def
      Int64ValueRecorder_Record_def outcome_def status_FromError_def
      before_handler_def after_handler_def
      split: option.splits)

lemma interceptor_emitted:
  assumes "UnaryServerInterceptor mr pfm sca now0 now1 ctx req info handler w = ((resp, err), w')"
  shows "emitted w w' =
          before_handler mr ctx req (snd (pfm (FullMethod info))) @
          after_handler mr ctx resp (time_Since now1 now0)
            (snd (pfm (FullMethod info)) @ [sca (outcome err)])"
    and "measurements w' = measurements w @ emitted w w'"
    and "fst (handler ctx req (app w)) = (resp, err)"
    and "app w' = snd (handler ctx req (app w))"
proof -
  obtain r e a where h: "handler ctx req (app w) = ((r, e), a)"
    by (cases "handler ctx req (app w)") auto
  have "UnaryServerInterceptor mr pfm sca now0 now1 ctx req info handler w =
    ((r, e),
     w\<lparr>measurements := measurements w @
          before_handler mr ctx req (snd (pfm (FullMethod info))) @
          after_handler mr ctx r (time_Since now1 now0)
            (snd (pfm (FullMethod info)) @ [sca (outcome e)]),
       app := a\<rparr>)"
    using h by (rule interceptor_run)
  with assms have re: "r = resp" "e = err"
    and w': "w' = w\<lparr>measurements := measurements w @
          before_handler mr ctx req (snd (pfm (FullMethod info))) @
          after_handler mr ctx resp (time_Since now1 now0)
            (snd (pfm (FullMethod info)) @ [sca (outcome err)]),
       app := a\<rparr>"
    by auto
  show "emitted w w' =
          before_handler mr ctx req (snd (pfm (FullMethod info))) @
          after_handler mr ctx resp (time_Since now1 now0)
            (snd (pfm (FullMethod info)) @ [sca (outcome err)])"
    by (simp add: w' emitted_def)
  then show "measurements w' = measurements w @ emitted w w'"
    by (simp add: w')
  show "fst (handler ctx req (app w)) = (resp, err)"
    by (simp add: h re)
  show "app w' = snd (handler ctx req (app w))"
    by (simp add: h w')
qed

lemma received_by_append: "received_by i (xs @ ys) = received_by i xs @ received_by i ys"
  by (simp add: received_by_def)

lemma received_by_before:
  assumes "distinct (handles mr)"
  shows "received_by (Counter (serverMsgReceivedCounter mr)) (before_handler mr ctx req attrs) =
           [Measurement (Counter (serverMsgReceivedCounter mr)) ctx 1 attrs]"
    and "received_by (Recorder (serverMsgReceivedBytes mr)) (before_handler mr ctx req attrs) =
           (case proto_Message req of
              Some p \<Rightarrow> [Measurement (Recorder (serverMsgReceivedBytes mr)) ctx (proto_Size p) attrs]
            | None \<Rightarrow> [])"
    and "received_by (Counter (serverMsgSentCounter mr)) (before_handler mr ctx req attrs) = []"
    and "received_by (Recorder (serverMsgSentBytes mr)) (before_handler mr ctx req attrs) = []"
    and "received_by (Recorder (serverLatencyMilliseconds mr)) (before_handler mr ctx req attrs) = []"
  using assms
  by (auto simp: received_by_def before_handler_def handles_def split: option.splits)

lemma received_by_after:
  assumes "distinct (handles mr)"
  shows "received_by (Counter (serverMsgReceivedCounter mr)) (after_handler mr ctx resp d attrs) = []"
    and "received_by (Recorder (serverMsgReceivedBytes mr)) (after_handler mr ctx resp d attrs) = []"
    and "received_by (Counter (serverMsgSentCounter mr)) (after_handler mr ctx resp d attrs) =
           [Measurement (Counter (serverMsgSentCounter mr)) ctx 1 attrs]"
    and "received_by (Recorder (serverLatencyMilliseconds mr)) (after_handler mr ctx resp d attrs) =
           [Measurement (Recorder (serverLatencyMilliseconds mr)) ctx (Milliseconds d) attrs]"
    and "received_by (Recorder (serverMsgSentBytes mr)) (after_handler mr ctx resp d attrs) =
           (case proto_Message resp of
              Some p \<Rightarrow> [Measurement (Recorder (serverMsgSentBytes mr)) ctx (proto_Size p) attrs]
            | None \<Rightarrow> [])"
  using assms
  by (auto simp: received_by_def after_handler_def handles_def split: option.splits)

lemma length_halves:
  "length (before_handler mr ctx req attrs) = 1 + (if proto_Message req = None then 0 else 1)"
  "length (after_handler mr ctx resp d attrs') = 2 + (if proto_Message resp = None then 0 else 1)"
  by (auto simp: before_handler_def after_handler_def split: option.splits)

lemma Milliseconds_nonneg:
  assumes "0 \<le> d"
  shows "Milliseconds d = d div 1000000"
  using assms by (cases "d = 0") (simp_all add: Milliseconds_def quo_def)

lemma time_Since_monotonic:
  assumes "now0 \<le> now1"
  shows "time_Since now1 now0 = min (now1 - now0) maxDuration"
  using assms by (simp add: time_Since_def Let_def maxDuration_def minDuration_def min_def)

subsection \<open>The concrete runs\<close>

lemmas example_defs = example_reporter_def example_info_def not_found_def
  counting_handler_def idle_handler_def example_world_def

lemmas run_defs = UnaryServerInterceptor_def Let_def parseFullMethod_def code_label_def
  Int64UpDownCounter_Add_def Int64ValueRecorder_Record_def status_FromError_def proto_Size_def
  time_Since_def maxDuration_def minDuration_def Milliseconds_def quo_def OK_def

lemma distinct_example: "distinct (handles example_reporter)"
  by (simp add: handles_def example_reporter_def)

lemma example_run_result:
  "UnaryServerInterceptor example_reporter parseFullMethod code_label 1000 2501000
     ''ctx'' (ProtoMessage [1, 2, 3]) example_info counting_handler example_world =
   ((ProtoMessage [8, 1], Some not_found), snd example_run)"
  by (simp add: example_run_def counting_handler_def UnaryServerInterceptor_def Let_def)

lemma example_run_emitted:
  "emitted example_world (snd example_run) =
     [Measurement (Counter (Int64UpDownCounter 0)) ''ctx'' 1
        [KeyValue ''rpc.service'' (StringValue ''pkg.Service''),
         KeyValue ''rpc.method'' (StringValue ''Get'')],
      Measurement (Recorder (Int64ValueRecorder 1)) ''ctx'' 3
        [KeyValue ''rpc.service'' (StringValue ''pkg.Service''),
         KeyValue ''rpc.method'' (StringValue ''Get'')],
      Measurement (Counter (Int64UpDownCounter 2)) ''ctx'' 1
        [KeyValue ''rpc.service'' (StringValue ''pkg.Service''),
         KeyValue ''rpc.method'' (StringValue ''Get''),
         KeyValue ''rpc.grpc.status_code'' (Uint32Value 5)],
      Measurement (Recorder (Int64ValueRecorder 4)) ''ctx'' 2
        [KeyValue ''rpc.service'' (StringValue ''pkg.Service''),
         KeyValue ''rpc.method'' (StringValue ''Get''),
         KeyValue ''rpc.grpc.status_code'' (Uint32Value 5)],
      Measurement (Recorder (Int64ValueRecorder 3)) ''ctx'' 2
        [KeyValue ''rpc.service'' (StringValue ''pkg.Service''),
         KeyValue ''rpc.method'' (StringValue ''Get''),
         KeyValue ''rpc.grpc.status_code'' (Uint32Value 5)]]"
  by (simp add: example_run_def example_defs run_defs emitted_def)

subsection \<open>Transparency\<close>

text \<open>
  C1. For every reporter, context, request, call info, handler and world, the
  response and the error that the interceptor returns are the response and the
  error that the handler returned, and the handler's state is left as the handler
  left it.
\<close>

theorem interceptor_returns_handler_result:
  "fst (UnaryServerInterceptor mr pfm sca now0 now1 ctx req info handler w) =
     fst (handler ctx req (app w))
   \<and> app (snd (UnaryServerInterceptor mr pfm sca now0 now1 ctx req info handler w)) =
     snd (handler ctx req (app w))"
proof -
  obtain resp err a where h: "handler ctx req (app w) = ((resp, err), a)"
    by (cases "handler ctx req (app w)") auto
  have "UnaryServerInterceptor mr pfm sca now0 now1 ctx req info handler w =
    ((resp, err),
     w\<lparr>measurements := measurements w @
          before_handler mr ctx req (snd (pfm (FullMethod info))) @
          after_handler mr ctx resp (time_Since now1 now0)
            (snd (pfm (FullMethod info)) @ [sca (outcome err)]),
       app := a\<rparr>)"
    using h by (rule interceptor_run)
  then show ?thesis by (simp add: h)
qed

theorem interceptor_returns_handler_result_witness:
  "fst example_run = (ProtoMessage [8, 1], Some not_found) \<and> app (snd example_run) = 1"
  using interceptor_returns_handler_result
    [where mr = example_reporter and pfm = parseFullMethod and sca = code_label
       and ?now0.0 = 1000 and ?now1.0 = 2501000 and ctx = "''ctx''"
       and req = "ProtoMessage [1, 2, 3]" and info = example_info
       and handler = counting_handler and w = example_world]
  by (simp add: example_run_def counting_handler_def example_world_def)

subsection \<open>Measurements of a call\<close>

text \<open>
  C2. A call adds its measurements to the end of the journal and nothing else.
  When the five instruments of the reporter are different, the received counter
  and the sent counter each receive exactly one add, of 1, and the latency
  recorder exactly one record; the received-bytes recorder receives one record
  when the request is a \<^verbatim>\<open>proto.Message\<close> and none otherwise, and the sent-bytes
  recorder receives one record when the response is a \<^verbatim>\<open>proto.Message\<close> and none
  otherwise, each side on its own.
\<close>

theorem interceptor_measurement_counts:
  assumes "distinct (handles mr)"
    and "UnaryServerInterceptor mr pfm sca now0 now1 ctx req info handler w = ((resp, err), w')"
  shows "map number (received_by (Counter (serverMsgReceivedCounter mr)) (emitted w w')) = [1]
    \<and> map number (received_by (Counter (serverMsgSentCounter mr)) (emitted w w')) = [1]
    \<and> length (received_by (Recorder (serverLatencyMilliseconds mr)) (emitted w w')) = 1
    \<and> length (received_by (Recorder (serverMsgReceivedBytes mr)) (emitted w w')) =
        (if proto_Message req = None then 0 else 1)
    \<and> length (received_by (Recorder (serverMsgSentBytes mr)) (emitted w w')) =
        (if proto_Message resp = None then 0 else 1)
    \<and> length (emitted w w') =
        3 + (if proto_Message req = None then 0 else 1)
          + (if proto_Message resp = None then 0 else 1)
    \<and> measurements w' = measurements w @ emitted w w'"
  using interceptor_emitted(1,2) [OF assms(2)]
  by (simp add: received_by_append received_by_before [OF assms(1)]
        received_by_after [OF assms(1)] length_halves split: option.splits)

theorem interceptor_measurement_counts_witness:
  "distinct (handles example_reporter)
   \<and> map number (received_by (Counter (Int64UpDownCounter 0))
        (emitted example_world (snd example_run))) = [1]
   \<and> map number (received_by (Counter (Int64UpDownCounter 2))
        (emitted example_world (snd example_run))) = [1]
   \<and> length (received_by (Recorder (Int64ValueRecorder 4))
        (emitted example_world (snd example_run))) = 1
   \<and> length (received_by (Recorder (Int64ValueRecorder 1))
        (emitted example_world (snd example_run))) = 1
   \<and> length (received_by (Recorder (Int64ValueRecorder 3))
        (emitted example_world (snd example_run))) = 1
   \<and> length (emitted example_world (snd example_run)) = 5"
  using interceptor_measurement_counts [OF distinct_example example_run_result] distinct_example
  by (simp add: example_reporter_def)

text \<open>
  C3. The outcome code of a call is fixed once, from the error the handler
  returned: \<^verbatim>\<open>OK\<close> when the error is nil, the code of the error's status when the
  error carries one, and \<^verbatim>\<open>Unknown\<close> when it carries none. The sent count and the
  latency both carry the label of this one code as their last label.
\<close>

theorem interceptor_outcome_code:
  assumes "distinct (handles mr)"
    and "UnaryServerInterceptor mr pfm sca now0 now1 ctx req info handler w = ((resp, err), w')"
  shows "map (\<lambda>m. last (labels m))
           (received_by (Counter (serverMsgSentCounter mr)) (emitted w w') @
            received_by (Recorder (serverLatencyMilliseconds mr)) (emitted w w')) =
         replicate 2 (sca
           (case err of
              None \<Rightarrow> OK
            | Some e \<Rightarrow> (case GRPCStatus e of Some st \<Rightarrow> status_code st | None \<Rightarrow> Unknown)))"
  using interceptor_emitted(1) [OF assms(2)]
  by (simp add: received_by_append received_by_before [OF assms(1)]
        received_by_after [OF assms(1)] outcome_def numeral_2_eq_2)

theorem interceptor_outcome_code_witness:
  "distinct (handles example_reporter)
   \<and> map (\<lambda>m. last (labels m))
        (received_by (Counter (Int64UpDownCounter 2)) (emitted example_world (snd example_run)) @
         received_by (Recorder (Int64ValueRecorder 4)) (emitted example_world (snd example_run))) =
      [KeyValue ''rpc.grpc.status_code'' (Uint32Value 5),
       KeyValue ''rpc.grpc.status_code'' (Uint32Value 5)]"
  using interceptor_outcome_code [OF distinct_example example_run_result] distinct_example
  by (simp add: example_reporter_def not_found_def code_label_def numeral_2_eq_2)

text \<open>
  C4. With five different instruments, the received count and the received bytes
  carry exactly the labels derived from the full method name, without a label
  for the outcome; the sent count, the latency and the sent bytes all carry one
  and the same label list, the method labels followed by exactly one label for
  the outcome code.
\<close>

theorem interceptor_label_sets:
  assumes "distinct (handles mr)"
    and "UnaryServerInterceptor mr pfm sca now0 now1 ctx req info handler w = ((resp, err), w')"
  shows "map labels (received_by (Counter (serverMsgReceivedCounter mr)) (emitted w w')) =
           [snd (pfm (FullMethod info))]
    \<and> map labels (received_by (Recorder (serverMsgReceivedBytes mr)) (emitted w w')) =
           (if proto_Message req = None then [] else [snd (pfm (FullMethod info))])
    \<and> map labels (received_by (Counter (serverMsgSentCounter mr)) (emitted w w')) =
           [snd (pfm (FullMethod info)) @ [sca (outcome err)]]
    \<and> map labels (received_by (Recorder (serverLatencyMilliseconds mr)) (emitted w w')) =
           [snd (pfm (FullMethod info)) @ [sca (outcome err)]]
    \<and> map labels (received_by (Recorder (serverMsgSentBytes mr)) (emitted w w')) =
           (if proto_Message resp = None then []
            else [snd (pfm (FullMethod info)) @ [sca (outcome err)]])"
  using interceptor_emitted(1) [OF assms(2)]
  by (simp add: received_by_append received_by_before [OF assms(1)]
        received_by_after [OF assms(1)] split: option.splits)

theorem interceptor_label_sets_witness:
  "distinct (handles example_reporter)
   \<and> map labels (received_by (Counter (Int64UpDownCounter 0))
        (emitted example_world (snd example_run))) =
      [[KeyValue ''rpc.service'' (StringValue ''pkg.Service''),
        KeyValue ''rpc.method'' (StringValue ''Get'')]]
   \<and> map labels (received_by (Recorder (Int64ValueRecorder 3))
        (emitted example_world (snd example_run))) =
      [[KeyValue ''rpc.service'' (StringValue ''pkg.Service''),
        KeyValue ''rpc.method'' (StringValue ''Get''),
        KeyValue ''rpc.grpc.status_code'' (Uint32Value 5)]]"
  using interceptor_label_sets [OF distinct_example example_run_result] distinct_example
  by (simp add: example_reporter_def example_info_def parseFullMethod_def not_found_def
        outcome_def code_label_def)

text \<open>
  C10. The record of the sent bytes does not depend on the outcome. With five
  different instruments, whatever error the handler returned, the sent-bytes
  recorder receives exactly one record, of the size of the response and with the
  method labels followed by the label of the outcome code, when the response is a
  \<^verbatim>\<open>proto.Message\<close>; it receives none when the response is nil or any other value,
  also when the error is nil.
\<close>

theorem interceptor_sent_bytes:
  assumes "distinct (handles mr)"
    and "UnaryServerInterceptor mr pfm sca now0 now1 ctx req info handler w = ((resp, err), w')"
  shows "received_by (Recorder (serverMsgSentBytes mr)) (emitted w w') =
           (case proto_Message resp of
              Some p \<Rightarrow> [Measurement (Recorder (serverMsgSentBytes mr)) ctx (proto_Size p)
                          (snd (pfm (FullMethod info)) @ [sca (outcome err)])]
            | None \<Rightarrow> [])"
  using interceptor_emitted(1) [OF assms(2)]
  by (simp add: received_by_append received_by_before [OF assms(1)]
        received_by_after [OF assms(1)] split: option.splits)

text \<open>
  The handler returns a message of two bytes together with a NotFound error.
\<close>

theorem interceptor_sent_bytes_witness:
  "distinct (handles example_reporter)
   \<and> received_by (Recorder (Int64ValueRecorder 3)) (emitted example_world (snd example_run)) =
      [Measurement (Recorder (Int64ValueRecorder 3)) ''ctx'' 2
         [KeyValue ''rpc.service'' (StringValue ''pkg.Service''),
          KeyValue ''rpc.method'' (StringValue ''Get''),
          KeyValue ''rpc.grpc.status_code'' (Uint32Value 5)]]"
  using interceptor_sent_bytes [OF distinct_example example_run_result] distinct_example
  by (simp add: example_reporter_def example_info_def parseFullMethod_def not_found_def
        outcome_def code_label_def proto_Size_def)

subsection \<open>Latency\<close>

text \<open>
  C6. The number recorded against the latency instrument is the duration between
  the reading of the clock on entry and its reading after the handler has
  returned, in whole milliseconds. The clock is monotonic, so the second reading
  is not before the first; then the duration is their difference (at most the
  largest \<^verbatim>\<open>Duration\<close>), and the recorded number is not negative, is the duration
  divided by \<open>10\<^sup>6\<close> and truncated, not rounded, and is 0 for a call of less than a
  millisecond.
\<close>

theorem interceptor_latency_milliseconds:
  assumes "distinct (handles mr)"
    and "UnaryServerInterceptor mr pfm sca now0 now1 ctx req info handler w = ((resp, err), w')"
    and "now0 \<le> now1"
  shows "map number (received_by (Recorder (serverLatencyMilliseconds mr)) (emitted w w')) =
           [Milliseconds (time_Since now1 now0)]
    \<and> time_Since now1 now0 = min (now1 - now0) maxDuration
    \<and> 0 \<le> Milliseconds (time_Since now1 now0)
    \<and> Milliseconds (time_Since now1 now0) * 1000000 \<le> time_Since now1 now0
    \<and> time_Since now1 now0 < (Milliseconds (time_Since now1 now0) + 1) * 1000000
    \<and> (now1 - now0 < 1000000 \<longrightarrow> Milliseconds (time_Since now1 now0) = 0)"
proof -
  let ?d = "time_Since now1 now0"
  have d: "?d = min (now1 - now0) maxDuration"
    using assms(3) by (rule time_Since_monotonic)
  have "0 \<le> ?d"
    using assms(3) by (simp add: d maxDuration_def)
  then have ms: "Milliseconds ?d = ?d div 1000000"
    by (rule Milliseconds_nonneg)
  have recorded:
    "map number (received_by (Recorder (serverLatencyMilliseconds mr)) (emitted w w')) =
       [Milliseconds ?d]"
    using interceptor_emitted(1) [OF assms(2)]
    by (simp add: received_by_append received_by_before [OF assms(1)]
          received_by_after [OF assms(1)])
  have "0 \<le> ?d div 1000000" "?d div 1000000 * 1000000 \<le> ?d"
    "?d < (?d div 1000000 + 1) * 1000000"
    using \<open>0 \<le> ?d\<close> by simp_all
  moreover have "now1 - now0 < 1000000 \<Longrightarrow> ?d div 1000000 = 0"
    using assms(3) by (simp add: d maxDuration_def min_def)
  ultimately show ?thesis
    using recorded d unfolding ms by blast
qed

text \<open>
  A call of 2.5 ms records 2.
\<close>

theorem interceptor_latency_milliseconds_witness:
  "distinct (handles example_reporter) \<and> (1000 :: int) \<le> 2501000
   \<and> map number (received_by (Recorder (Int64ValueRecorder 4))
        (emitted example_world (snd example_run))) = [2]
   \<and> time_Since 2501000 1000 = 2500000"
proof -
  have clock: "(1000 :: int) \<le> 2501000" by simp
  have two: "Milliseconds (time_Since 2501000 1000) = 2" "time_Since 2501000 1000 = 2500000"
    by (simp_all add: Milliseconds_def quo_def time_Since_def maxDuration_def minDuration_def)
  from interceptor_latency_milliseconds [OF distinct_example example_run_result clock]
  show ?thesis
    using distinct_example by (simp add: example_reporter_def two)
qed

subsection \<open>Two calls in a row\<close>

lemma first_run_fst: "fst first_run = (NilValue, None)"
  by (simp add: first_run_def idle_handler_def UnaryServerInterceptor_def Let_def)

lemma second_run_fst: "fst second_run = (NilValue, None)"
  by (simp add: second_run_def idle_handler_def UnaryServerInterceptor_def Let_def)

lemma first_run_result:
  "UnaryServerInterceptor example_reporter parseFullMethod code_label 0 0
     ''ctx'' (Other ''ping'') example_info idle_handler example_world =
   ((NilValue, None), snd first_run)"
  using first_run_fst by (simp add: first_run_def prod_eq_iff)

lemma second_run_result:
  "UnaryServerInterceptor example_reporter parseFullMethod code_label 0 3000000
     ''ctx'' (Other ''ping'') example_info idle_handler (snd first_run) =
   ((NilValue, None), snd second_run)"
  using second_run_fst by (simp add: second_run_def prod_eq_iff)

lemma first_run_numbers:
  "map number (emitted example_world (snd first_run)) = [1, 1, 0]"
  using interceptor_emitted(1) [OF first_run_result]
  by (simp add: before_handler_def after_handler_def Milliseconds_def quo_def time_Since_def
        maxDuration_def minDuration_def)

lemma second_run_numbers:
  "map number (emitted (snd first_run) (snd second_run)) = [1, 1, 3]"
  using interceptor_emitted(1) [OF second_run_result]
  by (simp add: before_handler_def after_handler_def Milliseconds_def quo_def time_Since_def
        maxDuration_def minDuration_def)

text \<open>
  C8, as stated, fails: the same context, request, call info and handler without
  side effects give, in two calls one after the other, the same result but not
  the same measurements when the second call takes 3 ms and the first none. The
  latency recorded is 0 in the first call and 3 in the second.
\<close>

theorem interceptor_two_runs_counterexample:
  "fst second_run = fst first_run
   \<and> map number (emitted example_world (snd first_run)) = [1, 1, 0]
   \<and> map number (emitted (snd first_run) (snd second_run)) = [1, 1, 3]
   \<and> emitted (snd first_run) (snd second_run) \<noteq> emitted example_world (snd first_run)"
proof -
  have "fst second_run = fst first_run"
    by (simp add: first_run_fst second_run_fst)
  moreover have
    "emitted (snd first_run) (snd second_run) \<noteq> emitted example_world (snd first_run)"
  proof
    assume "emitted (snd first_run) (snd second_run) = emitted example_world (snd first_run)"
    then have "map number (emitted (snd first_run) (snd second_run)) =
      map number (emitted example_world (snd first_run))"
      by simp
    then show False
      by (simp add: first_run_numbers second_run_numbers)
  qed
  ultimately show ?thesis
    by (simp add: first_run_numbers second_run_numbers)
qed

text \<open>
  C8, amended. Two calls one after the other with the same context, request,
  call info and a handler without side effects return the same result, leave the
  handler's state as it was, and add to the journal two sets of measurements,
  the second after the first, with the same instruments, contexts and labels in
  the same order and the same numbers except for the number recorded against the
  latency instrument, which is each call's own duration; when the two durations
  are the same, the two sets are the same. Nothing of the first call enters the
  second.
\<close>

theorem interceptor_two_runs:
  assumes pure: "\<And>a. handler ctx req a = (res, a)"
    and r1: "UnaryServerInterceptor mr pfm sca s0 s1 ctx req info handler w = (out1, w1)"
    and r2: "UnaryServerInterceptor mr pfm sca t0 t1 ctx req info handler w1 = (out2, w2)"
  shows "out1 = res \<and> out2 = res \<and> app w2 = app w
    \<and> measurements w2 = measurements w @ emitted w w1 @ emitted w1 w2
    \<and> map (\<lambda>m. (target m, ctxt m, labels m)) (emitted w1 w2) =
        map (\<lambda>m. (target m, ctxt m, labels m)) (emitted w w1)
    \<and> filter (\<lambda>m. target m \<noteq> Recorder (serverLatencyMilliseconds mr)) (emitted w1 w2) =
        filter (\<lambda>m. target m \<noteq> Recorder (serverLatencyMilliseconds mr)) (emitted w w1)
    \<and> (time_Since t1 t0 = time_Since s1 s0 \<longrightarrow> emitted w1 w2 = emitted w w1)"
proof -
  obtain resp1 err1 where o1: "out1 = (resp1, err1)" by (cases out1)
  obtain resp2 err2 where o2: "out2 = (resp2, err2)" by (cases out2)
  note a = interceptor_emitted [OF r1 [unfolded o1]]
  note b = interceptor_emitted [OF r2 [unfolded o2]]
  have e1: "res = (resp1, err1)" and e2: "res = (resp2, err2)"
    using a(3) b(3) by (simp_all add: pure)
  then have same: "resp2 = resp1" "err2 = err1" by simp_all
  have "app w1 = app w" "app w2 = app w1"
    using a(4) b(4) by (simp_all add: pure)
  then show ?thesis
    using e1 o1 o2 same a(1,2) b(1,2)
    by (simp add: after_handler_def before_handler_def split: option.splits)
qed

theorem interceptor_two_runs_witness:
  "(\<forall>a. idle_handler ''ctx'' (Other ''ping'') a = ((NilValue, None), a))
   \<and> fst first_run = (NilValue, None) \<and> fst second_run = (NilValue, None)
   \<and> app (snd second_run) = 0
   \<and> measurements (snd second_run) =
        emitted example_world (snd first_run) @ emitted (snd first_run) (snd second_run)
   \<and> map (\<lambda>m. (target m, ctxt m, labels m)) (emitted (snd first_run) (snd second_run)) =
       map (\<lambda>m. (target m, ctxt m, labels m)) (emitted example_world (snd first_run))"
proof -
  have idle: "\<And>a. idle_handler ''ctx'' (Other ''ping'') a = ((NilValue, None), a)"
    by (simp add: idle_handler_def)
  have "map (\<lambda>m. (target m, ctxt m, labels m)) (emitted (snd first_run) (snd second_run)) =
       map (\<lambda>m. (target m, ctxt m, labels m)) (emitted example_world (snd first_run))"
    and "app (snd second_run) = app example_world"
    and "measurements (snd second_run) = measurements example_world @
         emitted example_world (snd first_run) @ emitted (snd first_run) (snd second_run)"
    using interceptor_two_runs [OF idle first_run_result second_run_result] by simp_all
  then show ?thesis
    using idle by (simp add: example_world_def first_run_fst second_run_fst)
qed

subsection \<open>Method labels\<close>

lemma split_at_slash:
  assumes "CHR ''/'' \<notin> set service"
  shows "takeWhile (\<lambda>c. c \<noteq> CHR ''/'') (service @ CHR ''/'' # meth) = service"
    and "dropWhile (\<lambda>c. c \<noteq> CHR ''/'') (service @ CHR ''/'' # meth) = CHR ''/'' # meth"
  using assms by (induction service) auto

lemma no_slash:
  assumes "CHR ''/'' \<notin> set name"
  shows "dropWhile (\<lambda>c. c \<noteq> CHR ''/'') name = []"
  using assms by (induction name) auto

text \<open>
  C7. For a full method name \<^verbatim>\<open>/<service>/<method>\<close>, with a service and a method
  that are not empty and a service without a slash, exactly two labels are
  derived, \<^verbatim>\<open>rpc.service\<close> with the service and \<^verbatim>\<open>rpc.method\<close> with the method. A
  name without its leading slash is parsed in the same way, and a name without a
  separator gives no label. Whatever the full method name, the call completes:
  the interceptor returns the handler's result, and its first measurement carries
  the labels so derived.
\<close>

theorem parseFullMethod_labels:
  "(service \<noteq> [] \<and> meth \<noteq> [] \<and> CHR ''/'' \<notin> set service \<longrightarrow>
      snd (parseFullMethod (''/'' @ service @ ''/'' @ meth)) =
        [KeyValue ''rpc.service'' (StringValue service),
         KeyValue ''rpc.method'' (StringValue meth)])
   \<and> (service \<noteq> [] \<and> CHR ''/'' \<notin> set service \<longrightarrow>
      snd (parseFullMethod (service @ ''/'' @ meth)) =
        [KeyValue ''rpc.service'' (StringValue service),
         KeyValue ''rpc.method'' (StringValue meth)])
   \<and> (CHR ''/'' \<notin> set name \<longrightarrow>
      snd (parseFullMethod name) = [] \<and> snd (parseFullMethod (''/'' @ name)) = [])
   \<and> fst (UnaryServerInterceptor mr parseFullMethod sca now0 now1 ctx req info handler w) =
       fst (handler ctx req (app w))
   \<and> labels (hd (emitted w
        (snd (UnaryServerInterceptor mr parseFullMethod sca now0 now1 ctx req info handler w)))) =
       snd (parseFullMethod (FullMethod info))"
proof -
  have two: "snd (parseFullMethod (''/'' @ service @ ''/'' @ meth)) =
        [KeyValue ''rpc.service'' (StringValue service),
         KeyValue ''rpc.method'' (StringValue meth)]"
    if "CHR ''/'' \<notin> set service"
    using that by (simp add: parseFullMethod_def split_at_slash)
  have bare: "snd (parseFullMethod (service @ ''/'' @ meth)) =
        [KeyValue ''rpc.service'' (StringValue service),
         KeyValue ''rpc.method'' (StringValue meth)]"
    if ne: "service \<noteq> []" and ns: "CHR ''/'' \<notin> set service"
  proof -
    obtain c cs where s: "service = c # cs" using ne by (cases service) auto
    then have "c \<noteq> CHR ''/''" using ns by auto
    then have "parseFullMethod (service @ ''/'' @ meth) =
        (service @ ''/'' @ meth, [KeyValue ''rpc.service'' (StringValue service),
         KeyValue ''rpc.method'' (StringValue meth)])"
      using split_at_slash [OF ns, of meth]
      by (simp add: parseFullMethod_def s)
    then show ?thesis by simp
  qed
  have none: "snd (parseFullMethod name) = [] \<and> snd (parseFullMethod (''/'' @ name)) = []"
    if "CHR ''/'' \<notin> set name"
    using that by (cases name) (auto simp: parseFullMethod_def no_slash)
  obtain resp err a where h: "handler ctx req (app w) = ((resp, err), a)"
    by (cases "handler ctx req (app w)") auto
  have run: "UnaryServerInterceptor mr parseFullMethod sca now0 now1 ctx req info handler w =
    ((resp, err),
     w\<lparr>measurements := measurements w @
          before_handler mr ctx req (snd (parseFullMethod (FullMethod info))) @
          after_handler mr ctx resp (time_Since now1 now0)
            (snd (parseFullMethod (FullMethod info)) @ [sca (outcome err)]),
       app := a\<rparr>)"
    using h by (rule interceptor_run)
  have "fst (UnaryServerInterceptor mr parseFullMethod sca now0 now1 ctx req info handler w) =
       fst (handler ctx req (app w))"
    by (simp add: run h)
  moreover have "labels (hd (emitted w
        (snd (UnaryServerInterceptor mr parseFullMethod sca now0 now1 ctx req info handler w)))) =
       snd (parseFullMethod (FullMethod info))"
    by (simp add: run emitted_def before_handler_def)
  ultimately show ?thesis
    using two bare none by blast
qed

text \<open>
  \<^verbatim>\<open>/pkg.Service/Get\<close> gives the service \<^verbatim>\<open>pkg.Service\<close> and the method \<^verbatim>\<open>Get\<close>, with
  or without the leading slash; \<^verbatim>\<open>Get\<close> alone gives no label.
\<close>

theorem parseFullMethod_labels_witness:
  "snd (parseFullMethod ''/pkg.Service/Get'') =
     [KeyValue ''rpc.service'' (StringValue ''pkg.Service''),
      KeyValue ''rpc.method'' (StringValue ''Get'')]
   \<and> snd (parseFullMethod ''pkg.Service/Get'') =
     [KeyValue ''rpc.service'' (StringValue ''pkg.Service''),
      KeyValue ''rpc.method'' (StringValue ''Get'')]
   \<and> snd (parseFullMethod ''Get'') = [] \<and> snd (parseFullMethod ''/Get'') = []
   \<and> ''pkg.Service'' \<noteq> [] \<and> ''Get'' \<noteq> [] \<and> CHR ''/'' \<notin> set ''pkg.Service''
   \<and> CHR ''/'' \<notin> set ''Get''"
  using parseFullMethod_labels
    [where service = "''pkg.Service''" and meth = "''Get''" and name = "''Get''"
       and mr = example_reporter and sca = code_label and ?now0.0 = 0 and ?now1.0 = 0
       and ctx = "''ctx''" and req = NilValue and info = example_info
       and handler = idle_handler and w = example_world]
  by simp

end
